theory Spec2Isabelle
  imports Complex_Main "HOL-Library.Sublist" "HOL-Library.Signed_Division" "HOL-Library.Word"
begin

section \<open>Data model\<close>

text \<open>
  The three front ends (the standalone preemptive scheduler of package \<open>main\<close>, the HTTP
  extender of package \<open>sched_extension\<close> and the in-process plugin of package
  \<open>multiresource\<close>) each declare the same two structs, \<open>NodeStats\<close> and \<open>PodRequest\<close>.

  A Go \<open>float64\<close> is modelled as a \<open>real\<close>: comparisons are exact, while rounding and
  overflow of arithmetic are not modelled. A float division whose divisor is zero gives
  an infinity or a NaN in Go; a function of the model that reaches such a division
  returns \<open>None\<close>, so that no theorem speaks about values outside the finite reals.
\<close>

record NodeStats =
  CPUTotal :: real
  CPUFree :: real
  MemTotal :: real
  MemFree :: real
  DiskReadTotal :: real
  DiskReadFree :: real
  DiskWriteTotal :: real
  DiskWriteFree :: real
  NetUpTotal :: real
  NetUpFree :: real
  NetDownTotal :: real
  NetDownFree :: real

record PodRequest =
  CPU :: real
  Mem :: real
  DiskRead :: real
  DiskWrite :: real
  NetUp :: real
  NetDown :: real
  Priority :: int

text \<open>
  The lines the admission predicates write to the log. \<open>NotEnough name free req\<close> and
  \<open>UtilizationTooHigh name expected threshold\<close> are the two \<open>log.Printf\<close> calls of the
  standalone scheduler; \<open>PluginNotEnough label requested available\<close> and
  \<open>PluginCanBeScheduled\<close> are the \<open>klog\<close> calls of the plugin, which it writes at
  verbosity 4.
\<close>

datatype log_line =
    NotEnough string real real
  | UtilizationTooHigh string real real
  | PluginNotEnough string real real
  | PluginCanBeScheduled

section \<open>Admission filter\<close>

subsection \<open>Standalone scheduler: hard check and utilization ceiling\<close>

text \<open>One element of the \<open>resources\<close> slice: free, total (\<open>tot\<close> below), req, name.\<close>

type_synonym resource = "real \<times> real \<times> real \<times> string"

definition resources :: "PodRequest \<Rightarrow> NodeStats \<Rightarrow> resource list" where
  "resources pod stats =
     [(CPUFree stats, CPUTotal stats, CPU pod, ''cpu''),
      (MemFree stats, MemTotal stats, Mem pod, ''mem''),
      (DiskReadFree stats, DiskReadTotal stats, DiskRead pod, ''diskRead''),
      (DiskWriteFree stats, DiskWriteTotal stats, DiskWrite pod, ''diskWrite''),
      (NetUpFree stats, NetUpTotal stats, NetUp pod, ''netUp''),
      (NetDownFree stats, NetDownTotal stats, NetDown pod, ''netDown'')]"

text \<open>The \<open>for _, r := range resources\<close> loop of \<open>canScheduleMulti\<close>.\<close>

fun canScheduleMulti_loop :: "real \<Rightarrow> resource list \<Rightarrow> (bool \<times> log_line list) option" where
  "canScheduleMulti_loop alpha [] = Some (True, [])"
| "canScheduleMulti_loop alpha ((free, tot, req, name) # rs) =
     (if req = 0 then canScheduleMulti_loop alpha rs
      else if free < req then Some (False, [NotEnough name free req])
      else if tot = 0 then None
      else (let expectedUtil = 1 - ((free - req) / tot) in
            if expectedUtil > alpha
            then Some (False, [UtilizationTooHigh name expectedUtil alpha])
            else canScheduleMulti_loop alpha rs))"

definition canScheduleMulti ::
  "PodRequest \<Rightarrow> NodeStats \<Rightarrow> real \<Rightarrow> (bool \<times> log_line list) option" where
  "canScheduleMulti pod stats alpha = canScheduleMulti_loop alpha (resources pod stats)"

subsection \<open>Extender: hard check only\<close>

definition CanScheduleMulti :: "PodRequest \<Rightarrow> NodeStats \<Rightarrow> real \<Rightarrow> bool" where
  "CanScheduleMulti podReq stats alpha =
     (if CPU podReq > CPUFree stats \<or> Mem podReq > MemFree stats then False
      else if DiskRead podReq > DiskReadFree stats \<or> DiskWrite podReq > DiskWriteFree stats
      then False
      else if NetUp podReq > NetUpFree stats \<or> NetDown podReq > NetDownFree stats then False
      else True)"

subsection \<open>Plugin: hard check with one log line per dimension\<close>

definition plugin_canScheduleMulti :: "PodRequest \<Rightarrow> NodeStats \<Rightarrow> bool \<times> log_line list" where
  "plugin_canScheduleMulti podReq nodeStats =
     (if CPU podReq > CPUFree nodeStats
      then (False, [PluginNotEnough ''CPU'' (CPU podReq) (CPUFree nodeStats)])
      else if Mem podReq > MemFree nodeStats
      then (False, [PluginNotEnough ''Memory'' (Mem podReq) (MemFree nodeStats)])
      else if DiskRead podReq > DiskReadFree nodeStats
      then (False, [PluginNotEnough ''Disk Read'' (DiskRead podReq) (DiskReadFree nodeStats)])
      else if DiskWrite podReq > DiskWriteFree nodeStats
      then (False, [PluginNotEnough ''Disk Write'' (DiskWrite podReq) (DiskWriteFree nodeStats)])
      else if NetUp podReq > NetUpFree nodeStats
      then (False, [PluginNotEnough ''Network Upload'' (NetUp podReq) (NetUpFree nodeStats)])
      else if NetDown podReq > NetDownFree nodeStats
      then (False,
            [PluginNotEnough ''Network Download'' (NetDown podReq) (NetDownFree nodeStats)])
      else (True, [PluginCanBeScheduled]))"

section \<open>Scoring engine: dominant resource share\<close>

text \<open>
  Go's conversion \<open>int(x)\<close> of a \<open>float64\<close> discards the fraction (it rounds toward
  zero). The language leaves the result open when the value does not fit the integer
  type; that case is not modelled. \<open>float64(maxScore)\<close> is \<open>of_int\<close>, which is exact in
  Go up to \<open>2 ^ 53\<close>. Integer division \<open>/\<close> of Go truncates toward zero: \<open>sdiv\<close>.
\<close>

definition int_of_float64 :: "real \<Rightarrow> int" where
  "int_of_float64 x = (if 0 \<le> x then \<lfloor>x\<rfloor> else \<lceil>x\<rceil>)"

text \<open>One element of the \<open>resources\<close> slice of the scoring functions: free, req, name.\<close>

type_synonym score_resource = "real \<times> real \<times> string"

definition score_resources :: "PodRequest \<Rightarrow> NodeStats \<Rightarrow> score_resource list" where
  "score_resources pod stats =
     [(CPUFree stats, CPU pod, ''cpu''),
      (MemFree stats, Mem pod, ''mem''),
      (DiskReadFree stats, DiskRead pod, ''diskRead''),
      (DiskWriteFree stats, DiskWrite pod, ''diskWrite''),
      (NetUpFree stats, NetUp pod, ''netUp''),
      (NetDownFree stats, NetDown pod, ''netDown'')]"

text \<open>
  The loop that both scoring functions run over \<open>resources\<close>, with \<open>dominantShare\<close> as
  the accumulator. (The extender also logs each new dominant resource; that output is
  left out.)
\<close>

fun dominantShare_loop :: "real \<Rightarrow> score_resource list \<Rightarrow> real option" where
  "dominantShare_loop dominantShare [] = Some dominantShare"
| "dominantShare_loop dominantShare ((free, req, name) # rs) =
     (if req = 0 then dominantShare_loop dominantShare rs
      else if free = 0 then None
      else (let share = req / free in
            if share > dominantShare then dominantShare_loop share rs
            else dominantShare_loop dominantShare rs))"

text \<open>Standalone scheduler: \<open>scoreMultiResource\<close>, with the midpoint rule.\<close>

definition scoreMultiResource :: "PodRequest \<Rightarrow> NodeStats \<Rightarrow> int \<Rightarrow> int option" where
  "scoreMultiResource pod stats maxScore =
     (case dominantShare_loop 0 (score_resources pod stats) of
        None \<Rightarrow> None
      | Some dominantShare \<Rightarrow>
          if dominantShare = 0 then Some (maxScore sdiv 2)
          else (let score = of_int maxScore - (of_int maxScore * dominantShare) in
                Some (int_of_float64 (if score < 0 then 0 else score))))"

text \<open>Extender: \<open>ScoreMultiResource\<close>, the same without the midpoint rule.\<close>

definition ScoreMultiResource :: "PodRequest \<Rightarrow> NodeStats \<Rightarrow> int \<Rightarrow> int option" where
  "ScoreMultiResource podReq stats maxScore =
     (case dominantShare_loop 0 (score_resources podReq stats) of
        None \<Rightarrow> None
      | Some dominantShare \<Rightarrow>
          (let score = of_int maxScore - (of_int maxScore * dominantShare) in
           Some (int_of_float64 (if score < 0 then 0 else score))))"

section \<open>Score normalization (plugin)\<close>

text \<open>
  \<open>NormalizeScore\<close> computes on \<open>int64\<close>: a 64-bit word whose order is the signed one
  (\<open><s\<close>) and whose division truncates toward zero. The plugin's \<open>maxScore\<close> is a Go
  \<open>int\<close>, converted with \<open>int64(p.maxScore)\<close>.
\<close>

type_synonym int64 = "64 word"

definition int64_div :: "int64 \<Rightarrow> int64 \<Rightarrow> int64" where
  "int64_div a b = word_of_int (sint a sdiv sint b)"

record NodeScore =
  ScoreName :: string
  Score :: int64

text \<open>The first loop: the highest and the lowest score seen.\<close>

fun highest_lowest :: "int64 \<times> int64 \<Rightarrow> NodeScore list \<Rightarrow> int64 \<times> int64" where
  "highest_lowest (highest, lowest) [] = (highest, lowest)"
| "highest_lowest (highest, lowest) (nodeScore # scores) =
     highest_lowest
       (if highest <s Score nodeScore then Score nodeScore else highest,
        if Score nodeScore <s lowest then Score nodeScore else lowest) scores"

text \<open>
  \<open>scores\<close> is updated in place; the model returns the updated list. When all scores
  are equal the function returns before the second loop.
\<close>

definition NormalizeScore :: "int \<Rightarrow> NodeScore list \<Rightarrow> NodeScore list" where
  "NormalizeScore maxScore scores =
     (let (highest, lowest) = highest_lowest (0, word_of_int maxScore) scores in
      if highest = lowest then scores
      else map (\<lambda>nodeScore.
             if highest \<noteq> lowest
             then nodeScore\<lparr>Score :=
                    int64_div ((Score nodeScore - lowest) * word_of_int maxScore)
                              (highest - lowest)\<rparr>
             else nodeScore\<lparr>Score := word_of_int (maxScore sdiv 2)\<rparr>) scores)"

section \<open>Pods and requirement extraction\<close>

text \<open>
  The part of \<open>v1.Pod\<close> that the schedulers read. A container's resource requests are
  kept as the two numbers the code takes from them: \<open>MilliValue()\<close> of the cpu entry and
  \<open>Value()\<close> of the memory entry, \<open>None\<close> when the entry (or the whole request list) is
  absent. \<open>Annotations\<close> is \<open>None\<close> for a nil map, \<open>SpecPriority\<close> is \<open>None\<close> for a nil
  \<open>pod.Spec.Priority\<close>.
\<close>

datatype PodPhase = PodPending | PodRunning | PodSucceeded | PodFailed | PodUnknown

record Container =
  Image :: string
  RequestsCPU :: "int option"
  RequestsMemory :: "int option"

record Pod =
  PodName :: string
  PodNamespace :: string
  Annotations :: "(string \<rightharpoonup> string) option"
  Containers :: "Container list"
  SpecPriority :: "int option"
  StatusPhase :: PodPhase

subsection \<open>Annotation parsing\<close>

text \<open>
  \<open>strings.ToUpper\<close> on the last byte of the value. Only ASCII letters are mapped; a
  byte outside ASCII is never turned into one of the letters K, M, G by Go either.
\<close>

definition ToUpper :: "char \<Rightarrow> char" where
  "ToUpper c =
     (case map_of (zip ''abcdefghijklmnopqrstuvwxyz'' ''ABCDEFGHIJKLMNOPQRSTUVWXYZ'') c of
        Some u \<Rightarrow> u
      | None \<Rightarrow> c)"

text \<open>
  \<open>parseResourceAnnotation\<close> is declared twice, in the plugin and in the extender, with
  the same body. \<open>strconv.ParseFloat\<close> belongs to Go's standard library and is a
  parameter here: \<open>ParseFloat s = Some x\<close> when the call returns \<open>x\<close> with a nil error,
  \<open>None\<close> when it returns an error.
\<close>

definition parseResourceAnnotation ::
  "(string \<Rightarrow> real option) \<Rightarrow> Pod \<Rightarrow> string \<Rightarrow> real \<Rightarrow> real" where
  "parseResourceAnnotation ParseFloat pod key defaultValue =
     (case Annotations pod of
        None \<Rightarrow> defaultValue
      | Some annotations \<Rightarrow>
          (case annotations key of
             None \<Rightarrow> defaultValue
           | Some value \<Rightarrow>
               (case ParseFloat value of
                  Some parsedValue \<Rightarrow> parsedValue
                | None \<Rightarrow>
                    if length value > 1
                    then (let unit = ToUpper (last value); numPart = butlast value in
                          case ParseFloat numPart of
                            Some parsedNum \<Rightarrow>
                              if unit = CHR ''K'' then parsedNum * 1024
                              else if unit = CHR ''M'' then parsedNum * 1024 * 1024
                              else if unit = CHR ''G'' then parsedNum * 1024 * 1024 * 1024
                              else defaultValue
                          | None \<Rightarrow> defaultValue)
                    else defaultValue)))"

text \<open>
  An instance of the parameter for the examples: it reads a non-empty string of decimal
  digits and rejects every other string. \<open>strconv.ParseFloat\<close> returns the same on a
  string of digits (below \<open>2 ^ 53\<close>) and on a string that holds a letter outside its
  grammar.
\<close>

definition digit_value :: "char \<Rightarrow> nat option" where
  "digit_value c = map_of (zip ''0123456789'' [0, 1, 2, 3, 4, 5, 6, 7, 8, 9]) c"

fun parse_digits :: "nat \<Rightarrow> string \<Rightarrow> nat option" where
  "parse_digits acc [] = Some acc"
| "parse_digits acc (c # cs) =
     (case digit_value c of None \<Rightarrow> None | Some d \<Rightarrow> parse_digits (10 * acc + d) cs)"

definition parse_decimal :: "string \<Rightarrow> real option" where
  "parse_decimal s = (if s = [] then None else map_option real (parse_digits 0 s))"

subsection \<open>The plugin's extractor\<close>

text \<open>The body of the loop over \<open>pod.Spec.Containers\<close>, on the pair (req.CPU, req.Mem).\<close>

definition add_container_requests :: "real \<times> real \<Rightarrow> Container \<Rightarrow> real \<times> real" where
  "add_container_requests acc container =
     (let cpuReq = (case RequestsCPU container of None \<Rightarrow> 0 | Some m \<Rightarrow> m);
          memReq = (case RequestsMemory container of None \<Rightarrow> 0 | Some v \<Rightarrow> v) in
      (if cpuReq \<noteq> 0 then fst acc + of_int cpuReq / 1000 else fst acc,
       if memReq \<noteq> 0 then snd acc + of_int memReq else snd acc))"

definition plugin_extractPodRequirements ::
  "(string \<Rightarrow> real option) \<Rightarrow> Pod \<Rightarrow> PodRequest" where
  "plugin_extractPodRequirements ParseFloat pod =
     (let (cpu, mem) = foldl add_container_requests (0, 0) (Containers pod) in
      \<lparr>CPU = cpu, Mem = mem,
       DiskRead = parseResourceAnnotation ParseFloat pod ''scheduler.extender/disk-read''
                    (cpu * 10 * 1024 * 1024),
       DiskWrite = parseResourceAnnotation ParseFloat pod ''scheduler.extender/disk-write''
                     (cpu * 5 * 1024 * 1024),
       NetUp = parseResourceAnnotation ParseFloat pod ''scheduler.extender/net-up''
                 (cpu * 5 * 1024 * 1024),
       NetDown = parseResourceAnnotation ParseFloat pod ''scheduler.extender/net-down''
                   (cpu * 10 * 1024 * 1024),
       Priority = 1\<rparr>)"

section \<open>Preemption engine (standalone scheduler)\<close>

record RunningPod =
  Name :: string
  Namespace :: string
  CPURequest :: real
  MemRequest :: real
  RunningPriority :: int

text \<open>
  (\<open>RunningPriority\<close> is the field \<open>Priority\<close> of \<open>RunningPod\<close>; \<open>PodRequest\<close> has taken
  the name.)

  The cluster API, as far as preemption uses it. \<open>ListPods client nodeName\<close> is the
  answer to listing the pods with \<open>spec.nodeName=nodeName\<close>, \<open>None\<close> when the call
  fails. \<open>Evict client namespace name\<close> tells whether the eviction of that pod returns
  without error.
\<close>

record Client =
  ListPods :: "string \<Rightarrow> Pod list option"
  Evict :: "string \<Rightarrow> string \<Rightarrow> bool"

definition running_pod_of :: "Pod \<Rightarrow> RunningPod" where
  "running_pod_of pod =
     \<lparr>Name = PodName pod, Namespace = PodNamespace pod,
      CPURequest =
        foldl (\<lambda>cpuReq container.
                 case RequestsCPU container of
                   Some m \<Rightarrow> cpuReq + of_int m / 1000
                 | None \<Rightarrow> cpuReq) 0 (Containers pod),
      MemRequest =
        foldl (\<lambda>memReq container.
                 case RequestsMemory container of
                   Some v \<Rightarrow> memReq + of_int v
                 | None \<Rightarrow> memReq) 0 (Containers pod),
      RunningPriority = (case SpecPriority pod of Some p \<Rightarrow> p | None \<Rightarrow> 0)\<rparr>"

definition getRunningPods :: "Client \<Rightarrow> string \<Rightarrow> RunningPod list option" where
  "getRunningPods client nodeName =
     (case ListPods client nodeName of
        None \<Rightarrow> None
      | Some items \<Rightarrow>
          Some (map running_pod_of (filter (\<lambda>pod. StatusPhase pod = PodRunning) items)))"

text \<open>
  The eviction loop over \<open>victims\<close>: the result tells whether every call succeeded,
  together with the pods for which an eviction request was issued, in order. The loop
  stops at the first failing call.
\<close>

fun evict_victims :: "Client \<Rightarrow> RunningPod list \<Rightarrow> bool \<times> RunningPod list" where
  "evict_victims client [] = (True, [])"
| "evict_victims client (victim # victims) =
     (if \<not> Evict client (Namespace victim) (Name victim) then (False, [victim])
      else (let (ok, issued) = evict_victims client victims in (ok, victim # issued)))"

text \<open>
  The loop over the sorted candidates, with \<open>freedResources.cpu\<close>, \<open>freedResources.mem\<close>
  and \<open>victims\<close> as accumulators.
\<close>

fun preemption_loop ::
  "Client \<Rightarrow> PodRequest \<Rightarrow> NodeStats \<Rightarrow> real \<Rightarrow> real \<Rightarrow> RunningPod list \<Rightarrow>
   RunningPod list \<Rightarrow> bool \<times> RunningPod list" where
  "preemption_loop client pod stats cpu mem victims [] = (False, [])"
| "preemption_loop client pod stats cpu mem victims (candidate # candidates) =
     (let cpu' = cpu + CPURequest candidate;
          mem' = mem + MemRequest candidate;
          victims' = victims @ [candidate];
          canScheduleAfterPreemption =
            (CPUFree stats + cpu' \<ge> CPU pod \<and> MemFree stats + mem' \<ge> Mem pod) in
      if canScheduleAfterPreemption then evict_victims client victims'
      else preemption_loop client pod stats cpu' mem' victims' candidates)"

text \<open>
  \<open>sort.Slice\<close> orders the candidates by priority and promises nothing about pods of
  equal priority. On slices of at most twelve elements it runs an insertion sort that
  keeps their order, which is what \<open>sort_key\<close> computes.

  The result is the returned boolean and the eviction requests issued.
\<close>

definition attemptPreemptionMulti ::
  "Client \<Rightarrow> PodRequest \<Rightarrow> string \<Rightarrow> NodeStats \<Rightarrow> bool \<times> RunningPod list" where
  "attemptPreemptionMulti client pod nodeName stats =
     (case getRunningPods client nodeName of
        None \<Rightarrow> (False, [])
      | Some runningPods \<Rightarrow>
          (let candidates = filter (\<lambda>rp. RunningPriority rp < Priority pod) runningPods in
           if length candidates = 0 then (False, [])
           else preemption_loop client pod stats 0 0 []
                  (sort_key RunningPriority candidates)))"

section \<open>Node statistics from the metrics source\<close>

subsection \<open>Standalone scheduler\<close>

text \<open>
  \<open>queryPrometheus\<close> is the boundary to the metrics source and a parameter of the
  model: \<open>queryPrometheus query\<close> is \<open>None\<close> when the call returns an error, and otherwise
  the returned map, written as the list of its entries in the order in which a \<open>range\<close>
  loop of this run visits them (Go does not fix that order). The samples are finite
  numbers: a sample that \<open>parseFloat\<close> reads as an infinity or a NaN is outside the
  model.
\<close>

type_synonym metrics = "(string \<times> real) list"

text \<open>
  \<open>getNodeStats\<close> repeats one block for nine of its ten queries: the sample under the
  key \<open>nodeName + ":9100"\<close> if there is one; otherwise the first visited sample whose
  instance label contains the node name, or whose part before the first colon is
  contained in the node name; otherwise the first visited sample of a non-empty map.
  \<open>None\<close> stands for a block that leaves its \<open>found\<close> flag false.
\<close>

definition lookupSample :: "string \<Rightarrow> metrics \<Rightarrow> real option" where
  "lookupSample nodeName m =
     (case map_of m (nodeName @ '':9100'') of
        Some usage \<Rightarrow> Some usage
      | None \<Rightarrow>
          (case find (\<lambda>(instance, usage).
                        sublist nodeName instance \<or>
                        sublist (takeWhile (\<lambda>c. c \<noteq> CHR '':'') instance) nodeName) m of
             Some (instance, usage) \<Rightarrow> Some usage
           | None \<Rightarrow> (case m of [] \<Rightarrow> None | (instance, usage) # rest \<Rightarrow> Some usage)))"

definition cpuQuery :: string where
  \<open>cpuQuery = ''sum(rate(node_cpu_seconds_total{mode!="idle"}[5m])) by (instance)''\<close>

definition memQuery :: string where
  "memQuery = ''node_memory_MemTotal_bytes - node_memory_MemAvailable_bytes''"

definition memTotalQuery :: string where
  "memTotalQuery = ''node_memory_MemTotal_bytes''"

definition diskReadUsageQuery :: string where
  "diskReadUsageQuery = ''rate(node_disk_read_bytes_total[5m])''"

definition diskReadTotalQuery :: string where
  "diskReadTotalQuery = ''node_disk_read_bytes_max''"

definition diskWriteUsageQuery :: string where
  "diskWriteUsageQuery = ''rate(node_disk_written_bytes_total[5m])''"

definition diskWriteTotalQuery :: string where
  "diskWriteTotalQuery = ''node_disk_write_bytes_max''"

definition netUpUsageQuery :: string where
  "netUpUsageQuery = ''rate(node_network_transmit_bytes_total[5m])''"

definition netDownUsageQuery :: string where
  "netDownUsageQuery = ''rate(node_network_receive_bytes_total[5m])''"

definition netSpeedQuery :: string where
  "netSpeedQuery = ''node_network_speed_bytes''"

text \<open>
  A usage or capacity variable of the disk and network sections: \<open>onError\<close> when the
  query fails, the sample when the block finds one, and the zero value of the variable
  when the query succeeds with no sample.
\<close>

definition queried_value ::
  "(string \<Rightarrow> metrics option) \<Rightarrow> string \<Rightarrow> string \<Rightarrow> real \<Rightarrow> real" where
  "queried_value queryPrometheus nodeName query onError =
     (case queryPrometheus query of
        None \<Rightarrow> onError
      | Some m \<Rightarrow> (case lookupSample nodeName m of Some v \<Rightarrow> v | None \<Rightarrow> 0))"

definition getNodeStats :: "(string \<Rightarrow> metrics option) \<Rightarrow> string \<Rightarrow> NodeStats" where
  "getNodeStats queryPrometheus nodeName =
     (let (cpuTotal, cpuFree) =
            (case queryPrometheus cpuQuery of
               None \<Rightarrow> (6, 2)
             | Some cpuMetrics \<Rightarrow>
                 (case lookupSample nodeName cpuMetrics of
                    None \<Rightarrow> (6, 2)
                  | Some cpuUsage \<Rightarrow> (6, 6 - cpuUsage)));
          (memTotal, memFree) =
            (case queryPrometheus memQuery of
               None \<Rightarrow> (8 * 1024 * 1024 * 1024, 4 * 1024 * 1024 * 1024)
             | Some memMetrics \<Rightarrow>
                 (case lookupSample nodeName memMetrics of
                    None \<Rightarrow> (8 * 1024 * 1024 * 1024, 4 * 1024 * 1024 * 1024)
                  | Some memUsed \<Rightarrow>
                      (let total =
                             (case queryPrometheus memTotalQuery of
                                None \<Rightarrow> 8 * 1024 * 1024 * 1024
                              | Some memTotalMetrics \<Rightarrow>
                                  (case map_of memTotalMetrics (nodeName @ '':9100'') of
                                     Some t \<Rightarrow> t
                                   | None \<Rightarrow>
                                       (case memTotalMetrics of
                                          [] \<Rightarrow> 0
                                        | (instance, t) # rest \<Rightarrow> t))) in
                       (total, total - memUsed))));
          diskReadUsage = queried_value queryPrometheus nodeName diskReadUsageQuery 0;
          diskReadTotal = queried_value queryPrometheus nodeName diskReadTotalQuery 100;
          diskWriteUsage = queried_value queryPrometheus nodeName diskWriteUsageQuery 0;
          diskWriteTotal = queried_value queryPrometheus nodeName diskWriteTotalQuery 100;
          netUpUsage = queried_value queryPrometheus nodeName netUpUsageQuery 0;
          netDownUsage = queried_value queryPrometheus nodeName netDownUsageQuery 0;
          netSpeed = queried_value queryPrometheus nodeName netSpeedQuery 1000 in
      \<lparr>CPUTotal = cpuTotal, CPUFree = cpuFree,
       MemTotal = memTotal, MemFree = memFree,
       DiskReadTotal = diskReadTotal, DiskReadFree = diskReadTotal - diskReadUsage,
       DiskWriteTotal = diskWriteTotal, DiskWriteFree = diskWriteTotal - diskWriteUsage,
       NetUpTotal = netSpeed, NetUpFree = netSpeed - netUpUsage,
       NetDownTotal = netSpeed, NetDownFree = netSpeed - netDownUsage\<rparr>)"

subsection \<open>Plugin\<close>

text \<open>
  The plugin asks one query per quantity, built from the node name, and reads the sample
  stored under the node name. \<open>Query\<close> is \<open>None\<close> for an error and the result map
  otherwise; the client itself is \<open>None\<close> when \<open>p.promClient\<close> is nil, the one case in
  which \<open>getNodeStats\<close> returns an error. A field that no branch assigns keeps the
  zero value of the struct.
\<close>

definition plugin_cpuQuery :: "string \<Rightarrow> string" where
  \<open>plugin_cpuQuery nodeName =
     ''count(node_cpu_seconds_total{mode="idle",instance=~"'' @ nodeName @ ''.*"})''\<close>

definition plugin_cpuUsageQuery :: "string \<Rightarrow> string" where
  \<open>plugin_cpuUsageQuery nodeName =
     ''1 - avg(rate(node_cpu_seconds_total{mode="idle",instance=~"'' @ nodeName @
     ''.*"}[5m]))''\<close>

definition plugin_memTotalQuery :: "string \<Rightarrow> string" where
  \<open>plugin_memTotalQuery nodeName =
     ''node_memory_MemTotal_bytes{instance=~"'' @ nodeName @ ''.*"}''\<close>

definition plugin_memAvailableQuery :: "string \<Rightarrow> string" where
  \<open>plugin_memAvailableQuery nodeName =
     ''node_memory_MemAvailable_bytes{instance=~"'' @ nodeName @ ''.*"}''\<close>

definition plugin_diskReadQuery :: "string \<Rightarrow> string" where
  \<open>plugin_diskReadQuery nodeName =
     ''sum(rate(node_disk_read_bytes_total{instance=~"'' @ nodeName @ ''.*"}[5m]))''\<close>

definition plugin_diskWriteQuery :: "string \<Rightarrow> string" where
  \<open>plugin_diskWriteQuery nodeName =
     ''sum(rate(node_disk_written_bytes_total{instance=~"'' @ nodeName @ ''.*"}[5m]))''\<close>

definition plugin_netUpQuery :: "string \<Rightarrow> string" where
  \<open>plugin_netUpQuery nodeName =
     ''sum(rate(node_network_transmit_bytes_total{instance=~"'' @ nodeName @ ''.*"}[5m]))''\<close>

definition plugin_netDownQuery :: "string \<Rightarrow> string" where
  \<open>plugin_netDownQuery nodeName =
     ''sum(rate(node_network_receive_bytes_total{instance=~"'' @ nodeName @ ''.*"}[5m]))''\<close>

text \<open>
  The four disk and network sections share one shape: on an error both fields stay
  zero; a sample is taken as 80 percent of the capacity; without a sample the capacity
  is the given default with 20 percent of it free. The result is (total, free).
\<close>

definition plugin_throughput ::
  "(string \<Rightarrow> (string \<rightharpoonup> real) option) \<Rightarrow> string \<Rightarrow> string \<Rightarrow> real \<Rightarrow> real \<times> real" where
  "plugin_throughput Query nodeName query defaultTotal =
     (case Query query of
        None \<Rightarrow> (0, 0)
      | Some result \<Rightarrow>
          (case result nodeName of
             Some v \<Rightarrow> (v / 0.8, v / 0.8 - v)
           | None \<Rightarrow> (defaultTotal, defaultTotal * 0.2)))"

definition plugin_getNodeStats ::
  "(string \<Rightarrow> (string \<rightharpoonup> real) option) option \<Rightarrow> string \<Rightarrow> NodeStats option" where
  "plugin_getNodeStats promClient nodeName =
     (case promClient of
        None \<Rightarrow> None
      | Some Query \<Rightarrow>
          (let cpuTotal =
                 (case Query (plugin_cpuQuery nodeName) of
                    None \<Rightarrow> 0
                  | Some cpuResult \<Rightarrow>
                      (case cpuResult nodeName of Some v \<Rightarrow> v | None \<Rightarrow> 1.0));
               cpuFree =
                 (case Query (plugin_cpuUsageQuery nodeName) of
                    None \<Rightarrow> cpuTotal * 0.2
                  | Some cpuUsageResult \<Rightarrow>
                      (case cpuUsageResult nodeName of
                         Some v \<Rightarrow>
                           (let usageRatio = (if v > 1.0 then 1.0 else v) in
                            cpuTotal * (1.0 - usageRatio))
                       | None \<Rightarrow> cpuTotal * 0.2));
               memTotal =
                 (case Query (plugin_memTotalQuery nodeName) of
                    None \<Rightarrow> 0
                  | Some memTotalResult \<Rightarrow>
                      (case memTotalResult nodeName of
                         Some v \<Rightarrow> v
                       | None \<Rightarrow> 4 * 1024 * 1024 * 1024));
               memFree =
                 (case Query (plugin_memAvailableQuery nodeName) of
                    None \<Rightarrow> memTotal * 0.2
                  | Some memAvailableResult \<Rightarrow>
                      (case memAvailableResult nodeName of
                         Some v \<Rightarrow> v
                       | None \<Rightarrow> memTotal * 0.2));
               (diskReadTotal, diskReadFree) =
                 plugin_throughput Query nodeName (plugin_diskReadQuery nodeName)
                   (100 * 1024 * 1024);
               (diskWriteTotal, diskWriteFree) =
                 plugin_throughput Query nodeName (plugin_diskWriteQuery nodeName)
                   (50 * 1024 * 1024);
               (netUpTotal, netUpFree) =
                 plugin_throughput Query nodeName (plugin_netUpQuery nodeName)
                   (125 * 1024 * 1024);
               (netDownTotal, netDownFree) =
                 plugin_throughput Query nodeName (plugin_netDownQuery nodeName)
                   (125 * 1024 * 1024) in
           Some \<lparr>CPUTotal = cpuTotal, CPUFree = cpuFree,
                 MemTotal = memTotal, MemFree = memFree,
                 DiskReadTotal = diskReadTotal, DiskReadFree = diskReadFree,
                 DiskWriteTotal = diskWriteTotal, DiskWriteFree = diskWriteFree,
                 NetUpTotal = netUpTotal, NetUpFree = netUpFree,
                 NetDownTotal = netDownTotal, NetDownFree = netDownFree\<rparr>))"

subsection \<open>Extender: the CPU section and its clamp\<close>

text \<open>
  The extender's \<open>GetNodeStats\<close> starts with the same CPU section as the standalone
  \<open>getNodeStats\<close> above (the same query, the same search for the sample, the same
  fallback values), followed by one more statement: a free value below zero is set to
  zero. The multi-resource scheduler's \<open>getNodeStats\<close> has this section, clamp included,
  word for word. \<open>GetNodeStats_CPU\<close> is that section alone, with the result
  (\<open>stats.CPUTotal\<close>, \<open>stats.CPUFree\<close>); the memory, disk and network sections of the
  function are not modelled.
\<close>

definition GetNodeStats_CPU :: "(string \<Rightarrow> metrics option) \<Rightarrow> string \<Rightarrow> real \<times> real" where
  "GetNodeStats_CPU QueryPrometheus nodeName =
     (case QueryPrometheus cpuQuery of
        None \<Rightarrow> (6, 2)
      | Some cpuMetrics \<Rightarrow>
          (case lookupSample nodeName cpuMetrics of
             None \<Rightarrow> (6, 2)
           | Some cpuUsage \<Rightarrow>
               (let cpuFree = 6 - cpuUsage in
                (6, if cpuFree < 0 then 0 else cpuFree))))"

section \<open>Vocabulary of the statements\<close>

text \<open>
  The definitions of this section are not part of the program: they name the
  conditions that the theorems below speak about.
\<close>

text \<open>A dimension whose demand is larger than the free capacity.\<close>

definition exceeded :: "resource \<Rightarrow> bool" where
  "exceeded r = (case r of (free, tot, req, name) \<Rightarrow> free < req)"

text \<open>
  A dimension on which the standalone loop stops: the demand is not zero, and either the
  capacity check or the utilization ceiling fails.
\<close>

definition fails_check :: "real \<Rightarrow> resource \<Rightarrow> bool" where
  "fails_check alpha r =
     (case r of (free, tot, req, name) \<Rightarrow>
        req \<noteq> 0 \<and> (free < req \<or> 1 - ((free - req) / tot) > alpha))"

text \<open>
  A dimension on which the standalone loop does not divide by a zero total: it is
  skipped, or rejected by the capacity check, or its total is not zero.
\<close>

definition ceiling_defined :: "resource \<Rightarrow> bool" where
  "ceiling_defined r =
     (case r of (free, tot, req, name) \<Rightarrow> req = 0 \<or> free < req \<or> tot \<noteq> 0)"

text \<open>
  A dimension as the data model has it: the free capacity lies between zero and the
  total, and the demand is not negative.
\<close>

definition well_formed_row :: "resource \<Rightarrow> bool" where
  "well_formed_row r =
     (case r of (free, tot, req, name) \<Rightarrow> 0 \<le> free \<and> free \<le> tot \<and> 0 \<le> req)"

text \<open>A dimension that is skipped for want of demand, or whose total is positive.\<close>

definition demanded_total_positive :: "resource \<Rightarrow> bool" where
  "demanded_total_positive r =
     (case r of (free, tot, req, name) \<Rightarrow> req = 0 \<or> 0 < tot)"

text \<open>The dimension that a log line of the standalone scheduler names.\<close>

fun line_name :: "log_line \<Rightarrow> string" where
  "line_name (NotEnough name a b) = name"
| "line_name (UtilizationTooHigh name a b) = name"
| "line_name (PluginNotEnough name a b) = name"
| "line_name PluginCanBeScheduled = []"

text \<open>How the plugin's log lines spell the six dimensions.\<close>

definition plugin_label :: "string \<Rightarrow> string" where
  "plugin_label name =
     (if name = ''cpu'' then ''CPU''
      else if name = ''mem'' then ''Memory''
      else if name = ''diskRead'' then ''Disk Read''
      else if name = ''diskWrite'' then ''Disk Write''
      else if name = ''netUp'' then ''Network Upload''
      else ''Network Download'')"

text \<open>
  \<open>free_raised n n'\<close>: the node state \<open>n'\<close> has the totals of \<open>n\<close> and no free capacity
  below that of \<open>n\<close>. Raising one free field of \<open>n\<close> is the special case in which the
  other five are equal.
\<close>

definition free_raised :: "NodeStats \<Rightarrow> NodeStats \<Rightarrow> bool" where
  "free_raised n n' =
     (CPUTotal n' = CPUTotal n \<and> MemTotal n' = MemTotal n \<and>
      DiskReadTotal n' = DiskReadTotal n \<and> DiskWriteTotal n' = DiskWriteTotal n \<and>
      NetUpTotal n' = NetUpTotal n \<and> NetDownTotal n' = NetDownTotal n \<and>
      CPUFree n \<le> CPUFree n' \<and> MemFree n \<le> MemFree n' \<and>
      DiskReadFree n \<le> DiskReadFree n' \<and> DiskWriteFree n \<le> DiskWriteFree n' \<and>
      NetUpFree n \<le> NetUpFree n' \<and> NetDownFree n \<le> NetDownFree n')"

definition row_raised :: "resource \<Rightarrow> resource \<Rightarrow> bool" where
  "row_raised r r' =
     (case (r, r') of ((free, tot, req, name), (free', tot', req', name')) \<Rightarrow>
        free \<le> free' \<and> tot' = tot \<and> req' = req \<and> name' = name)"

definition zero_demand :: "PodRequest \<Rightarrow> bool" where
  "zero_demand pod =
     (CPU pod = 0 \<and> Mem pod = 0 \<and> DiskRead pod = 0 \<and> DiskWrite pod = 0 \<and>
      NetUp pod = 0 \<and> NetDown pod = 0)"

text \<open>A running workload that requests 0.5 CPU and 500 MiB at priority 1.\<close>

definition half_cpu_workload :: "RunningPod \<Rightarrow> bool" where
  "half_cpu_workload rp =
     (CPURequest rp = 0.5 \<and> MemRequest rp = 500 * 1024 * 1024 \<and> RunningPriority rp = 1)"

text \<open>
  The preemption scenario: 0.5 CPU and 512 MiB free, exactly two running workloads of
  the kind above on the node, a demand of 1 CPU and 1 GiB at priority 10, and a cluster
  that accepts the eviction of either workload.
\<close>

definition preemption_scenario ::
  "Client \<Rightarrow> PodRequest \<Rightarrow> string \<Rightarrow> NodeStats \<Rightarrow> RunningPod \<Rightarrow> RunningPod \<Rightarrow> bool" where
  "preemption_scenario client pod nodeName stats rp1 rp2 =
     (CPUFree stats = 0.5 \<and> MemFree stats = 512 * 1024 * 1024 \<and>
      getRunningPods client nodeName = Some [rp1, rp2] \<and>
      half_cpu_workload rp1 \<and> half_cpu_workload rp2 \<and>
      CPU pod = 1 \<and> Mem pod = 1024 * 1024 * 1024 \<and> Priority pod = 10 \<and>
      Evict client (Namespace rp1) (Name rp1) \<and> Evict client (Namespace rp2) (Name rp2))"

definition no_lower_priority :: "Client \<Rightarrow> PodRequest \<Rightarrow> string \<Rightarrow> bool" where
  "no_lower_priority client pod nodeName =
     (\<forall>runningPods. getRunningPods client nodeName = Some runningPods \<longrightarrow>
        (\<forall>rp \<in> set runningPods. \<not> RunningPriority rp < Priority pod))"

text \<open>The pod with one more annotation.\<close>

definition with_annotation :: "Pod \<Rightarrow> string \<Rightarrow> string \<Rightarrow> Pod" where
  "with_annotation pod key value =
     pod\<lparr>Annotations :=
           Some ((case Annotations pod of None \<Rightarrow> Map.empty | Some a \<Rightarrow> a)(key \<mapsto> value))\<rparr>"

text \<open>
  What \<open>strconv.ParseFloat\<close> returns on the strings that the four examples of annotation
  parsing reach.
\<close>

definition agrees_on_examples :: "(string \<Rightarrow> real option) \<Rightarrow> bool" where
  "agrees_on_examples ParseFloat =
     (ParseFloat ''50M'' = None \<and> ParseFloat ''50'' = Some 50 \<and>
      ParseFloat ''2G'' = None \<and> ParseFloat ''2'' = Some 2 \<and>
      ParseFloat ''100'' = Some 100 \<and>
      ParseFloat ''garbage'' = None \<and> ParseFloat ''garbag'' = None)"

section \<open>Concrete inputs\<close>

text \<open>
  The node and the demand of the end-to-end example: 4 cores with 3 free, 8 GiB with
  6 GiB free, a demand of 1 core and 1 GiB. (The example leaves the disk and network
  capacities open; they are set to the fallback values of the standalone scheduler.)
\<close>

definition example_node :: NodeStats where
  "example_node = \<lparr>CPUTotal = 4, CPUFree = 3, MemTotal = 8589934592, MemFree = 6442450944,
                   DiskReadTotal = 100, DiskReadFree = 100, DiskWriteTotal = 100,
                   DiskWriteFree = 100, NetUpTotal = 1000, NetUpFree = 1000,
                   NetDownTotal = 1000, NetDownFree = 1000\<rparr>"

definition example_pod :: PodRequest where
  "example_pod = \<lparr>CPU = 1, Mem = 1073741824, DiskRead = 0, DiskWrite = 0, NetUp = 0,
                  NetDown = 0, Priority = 10\<rparr>"

definition idle_pod :: PodRequest where
  "idle_pod = \<lparr>CPU = 0, Mem = 0, DiskRead = 0, DiskWrite = 0, NetUp = 0, NetDown = 0,
               Priority = 0\<rparr>"

text \<open>The pods, the client, the demand and the node of \<open>TestAttemptPreemption\<close>.\<close>

definition lowPod1 :: Pod where
  "lowPod1 = \<lparr>PodName = ''low-pod-1'', PodNamespace = ''default'', Annotations = None,
               Containers = [\<lparr>Image = ''busybox'', RequestsCPU = Some 500,
                              RequestsMemory = Some (500 * 1024 * 1024)\<rparr>],
               SpecPriority = Some 1, StatusPhase = PodRunning\<rparr>"

definition lowPod2 :: Pod where
  "lowPod2 = \<lparr>PodName = ''low-pod-2'', PodNamespace = ''default'', Annotations = None,
               Containers = [\<lparr>Image = ''busybox'', RequestsCPU = Some 500,
                              RequestsMemory = Some (500 * 1024 * 1024)\<rparr>],
               SpecPriority = Some 1, StatusPhase = PodRunning\<rparr>"

definition test_client :: Client where
  "test_client = \<lparr>ListPods = (\<lambda>nodeName. Some [lowPod1, lowPod2]),
                   Evict = (\<lambda>namespace name. True)\<rparr>"

definition test_podReq :: PodRequest where
  "test_podReq = \<lparr>CPU = 1, Mem = 1024 * 1024 * 1024, DiskRead = 0, DiskWrite = 0,
                   NetUp = 0, NetDown = 0, Priority = 10\<rparr>"

definition test_stats :: NodeStats where
  "test_stats = \<lparr>CPUTotal = 4, CPUFree = 0.5, MemTotal = 4 * 1024 * 1024 * 1024,
                  MemFree = 512 * 1024 * 1024,
                  DiskReadTotal = 0, DiskReadFree = 0, DiskWriteTotal = 0,
                  DiskWriteFree = 0, NetUpTotal = 0, NetUpFree = 0,
                  NetDownTotal = 0, NetDownFree = 0\<rparr>"

text \<open>
  A metrics source that answers every query with one sample \<open>v\<close> for the node
  \<open>node1\<close>, in the form the standalone scheduler and the plugin read it.
\<close>

definition steady_metrics :: "real \<Rightarrow> string \<Rightarrow> metrics option" where
  "steady_metrics v query = Some [(''node1:9100'', v)]"

definition steady_plugin_metrics :: "real \<Rightarrow> string \<Rightarrow> (string \<rightharpoonup> real) option" where
  "steady_plugin_metrics v query = Some [''node1'' \<mapsto> v]"

section \<open>Admission filter: rejection and monotonicity\<close>

text \<open>
  On node states and demands of the data model the standalone loop never divides by a
  zero total: a dimension without capacity rejects every demand that is not zero.
\<close>

lemma well_formed_ceiling_defined: "well_formed_row r \<Longrightarrow> ceiling_defined r"
  by (cases r) (auto simp: well_formed_row_def ceiling_defined_def)

lemma loop_find:
  "\<forall>r \<in> set rs. ceiling_defined r \<Longrightarrow>
   canScheduleMulti_loop alpha rs =
     (case find (fails_check alpha) rs of
        None \<Rightarrow> Some (True, [])
      | Some (free, tot, req, name) \<Rightarrow>
          Some (False, [if free < req then NotEnough name free req
                        else UtilizationTooHigh name (1 - ((free - req) / tot)) alpha]))"
  by (induction alpha rs rule: canScheduleMulti_loop.induct)
     (auto simp: fails_check_def ceiling_defined_def Let_def)

lemma loop_rejects:
  assumes "\<forall>r \<in> set rs. ceiling_defined r" and "\<exists>r \<in> set rs. fails_check alpha r"
  shows "\<exists>l free tot req name. canScheduleMulti_loop alpha rs = Some (False, [l]) \<and>
           find (fails_check alpha) rs = Some (free, tot, req, name) \<and> line_name l = name"
proof -
  from assms(2) obtain r where r: "find (fails_check alpha) rs = Some r"
    by (cases "find (fails_check alpha) rs") (auto simp: find_None_iff)
  obtain free tot req name where "r = (free, tot, req, name)" by (cases r) auto
  with r loop_find[OF assms(1), of alpha] show ?thesis by auto
qed

lemma plugin_first_exceeded:
  assumes "\<exists>r \<in> set (resources d n). exceeded r"
  shows "\<exists>free tot req name. find exceeded (resources d n) = Some (free, tot, req, name) \<and>
           plugin_canScheduleMulti d n = (False, [PluginNotEnough (plugin_label name) req free])"
  using assms
  by (auto simp: resources_def exceeded_def plugin_canScheduleMulti_def plugin_label_def)

text \<open>
  C1. If the demand is larger than the free capacity in some dimension, then
  \<^item> the extender's \<open>CanScheduleMulti\<close> returns false (it reports no dimension: its result
    is the boolean alone);
  \<^item> the plugin's \<open>canScheduleMulti\<close> returns false and its log line names the first such
    dimension in the order cpu, mem, diskRead, diskWrite, netUp, netDown;
  \<^item> the standalone \<open>canScheduleMulti\<close> returns false, provided the demand of that
    dimension is not zero (a zero demand is skipped) and no dimension divides by a zero
    total; its log line names the first dimension on which either the capacity check or
    the utilization ceiling fails.
\<close>

theorem exceeded_dimension_is_rejected:
  assumes "\<exists>r \<in> set (resources d n). exceeded r"
  shows "CanScheduleMulti d n alpha = False \<and>
         (\<exists>free tot req name.
            find exceeded (resources d n) = Some (free, tot, req, name) \<and>
            plugin_canScheduleMulti d n =
              (False, [PluginNotEnough (plugin_label name) req free])) \<and>
         ((\<exists>(free, tot, req, name) \<in> set (resources d n). free < req \<and> req \<noteq> 0) \<and>
          (\<forall>r \<in> set (resources d n). ceiling_defined r) \<longrightarrow>
          (\<exists>l free tot req name.
             canScheduleMulti d n alpha = Some (False, [l]) \<and>
             find (fails_check alpha) (resources d n) = Some (free, tot, req, name) \<and>
             line_name l = name))"
proof (intro conjI impI)
  from assms show "CanScheduleMulti d n alpha = False"
    by (auto simp: resources_def exceeded_def CanScheduleMulti_def)
  from assms show "\<exists>free tot req name.
            find exceeded (resources d n) = Some (free, tot, req, name) \<and>
            plugin_canScheduleMulti d n =
              (False, [PluginNotEnough (plugin_label name) req free])"
    by (rule plugin_first_exceeded)
next
  assume a: "(\<exists>(free, tot, req, name) \<in> set (resources d n). free < req \<and> req \<noteq> 0) \<and>
             (\<forall>r \<in> set (resources d n). ceiling_defined r)"
  then obtain free tot req name
    where r: "(free, tot, req, name) \<in> set (resources d n)" "free < req" "req \<noteq> 0"
    by auto
  then have "fails_check alpha (free, tot, req, name)"
    by (simp add: fails_check_def)
  with r(1) have f: "\<exists>r \<in> set (resources d n). fails_check alpha r"
    by blast
  from a have t: "\<forall>r \<in> set (resources d n). ceiling_defined r"
    by blast
  from loop_rejects[OF t f]
  show "\<exists>l free tot req name.
            canScheduleMulti d n alpha = Some (False, [l]) \<and>
            find (fails_check alpha) (resources d n) = Some (free, tot, req, name) \<and>
            line_name l = name"
    by (simp add: canScheduleMulti_def)
qed

text \<open>
  The theorem at the example node with a demand of 4 cores, one more than the 3 that
  are free, and the ceiling 0.8. The node and the demand are well formed, so no
  dimension divides by a zero total.
\<close>

theorem exceeded_dimension_is_rejected_witness:
  "(\<exists>r \<in> set (resources (example_pod\<lparr>CPU := 4\<rparr>) example_node). exceeded r) \<and>
   (\<exists>(free, tot, req, name) \<in> set (resources (example_pod\<lparr>CPU := 4\<rparr>) example_node).
      free < req \<and> req \<noteq> 0) \<and>
   list_all well_formed_row (resources (example_pod\<lparr>CPU := 4\<rparr>) example_node) \<and>
   CanScheduleMulti (example_pod\<lparr>CPU := 4\<rparr>) example_node (4/5) = False \<and>
   plugin_canScheduleMulti (example_pod\<lparr>CPU := 4\<rparr>) example_node =
     (False, [PluginNotEnough ''CPU'' 4 3]) \<and>
   (\<exists>l. canScheduleMulti (example_pod\<lparr>CPU := 4\<rparr>) example_node (4/5) = Some (False, [l]) \<and>
        line_name l = ''cpu'')"
proof -
  let ?d = "example_pod\<lparr>CPU := 4\<rparr>"
  have h1: "\<exists>r \<in> set (resources ?d example_node). exceeded r"
    by (simp add: resources_def example_pod_def example_node_def exceeded_def)
  have h2: "\<exists>(free, tot, req, name) \<in> set (resources ?d example_node).
              free < req \<and> req \<noteq> 0"
    by (simp add: resources_def example_pod_def example_node_def)
  have w: "\<forall>r \<in> set (resources ?d example_node). well_formed_row r"
    by (simp add: resources_def example_pod_def example_node_def well_formed_row_def)
  then have h3: "\<forall>r \<in> set (resources ?d example_node). ceiling_defined r"
    by (blast intro: well_formed_ceiling_defined)
  have f1: "find exceeded (resources ?d example_node) = Some (3, 4, 4, ''cpu'')"
    by (simp add: resources_def example_pod_def example_node_def exceeded_def)
  have f2: "find (fails_check (4/5)) (resources ?d example_node) = Some (3, 4, 4, ''cpu'')"
    by (simp add: resources_def example_pod_def example_node_def fails_check_def)
  from exceeded_dimension_is_rejected[OF h1, of "4/5"] h2 h3
  have "CanScheduleMulti ?d example_node (4/5) = False"
    and "\<exists>free tot req name.
            find exceeded (resources ?d example_node) = Some (free, tot, req, name) \<and>
            plugin_canScheduleMulti ?d example_node =
              (False, [PluginNotEnough (plugin_label name) req free])"
    and "\<exists>l free tot req name.
             canScheduleMulti ?d example_node (4/5) = Some (False, [l]) \<and>
             find (fails_check (4/5)) (resources ?d example_node) =
               Some (free, tot, req, name) \<and>
             line_name l = name"
    by blast+
  with f1 f2 h1 h2 w show ?thesis
    by (auto simp: plugin_label_def list_all_iff)
qed

text \<open>
  At this input only the memory demand (8 GiB against 6 GiB free) is larger than the
  free capacity, and the standalone predicate, with the ceiling 0.8, stops one dimension
  earlier: 2.5 of the 3 free cores would bring the CPU to a utilization of 0.875, and
  the log line reports the CPU ceiling, not the memory.
\<close>

theorem ceiling_reported_before_exceeded_dimension:
  "find exceeded (resources (example_pod\<lparr>CPU := 5/2, Mem := 8589934592\<rparr>) example_node) =
     Some (6442450944, 8589934592, 8589934592, ''mem'') \<and>
   canScheduleMulti (example_pod\<lparr>CPU := 5/2, Mem := 8589934592\<rparr>) example_node (4/5) =
     Some (False, [UtilizationTooHigh ''cpu'' (7/8) (4/5)])"
  by (simp add: resources_def example_pod_def example_node_def exceeded_def
      canScheduleMulti_def Let_def)

lemma util_mono:
  fixes free :: real
  assumes "0 < tot" "free \<le> free'" "\<not> alpha < 1 - (free - req) / tot"
  shows "\<not> alpha < 1 - (free' - req) / tot"
proof -
  from assms(1,2) have "(free - req) / tot \<le> (free' - req) / tot"
    by (simp add: divide_right_mono)
  with assms(3) show ?thesis by linarith
qed

lemma demanded_total_positive_ceiling_defined:
  "demanded_total_positive r \<Longrightarrow> ceiling_defined r"
  by (cases r) (auto simp: demanded_total_positive_def ceiling_defined_def)

lemma loop_defined:
  assumes "\<forall>r \<in> set rs. ceiling_defined r"
  shows "\<exists>b l. canScheduleMulti_loop alpha rs = Some (b, l)"
  using loop_find[OF assms, of alpha] by (auto split: option.splits)

lemma loop_mono:
  assumes "list_all2 row_raised rs rs'" and "\<forall>r \<in> set rs. demanded_total_positive r"
    and "canScheduleMulti_loop alpha rs = Some (True, [])"
  shows "canScheduleMulti_loop alpha rs' = Some (True, [])"
  using assms
proof (induction rule: list_all2_induct)
  case Nil
  then show ?case by simp
next
  case (Cons r rs r' rs')
  obtain free tot req name where r: "r = (free, tot, req, name)" by (cases r) auto
  obtain free' where r': "r' = (free', tot, req, name)"
    using Cons.hyps(1) r by (cases r') (auto simp: row_raised_def)
  from Cons.hyps(1) r r' have le: "free \<le> free'" by (simp add: row_raised_def)
  show ?case
  proof (cases "req = 0")
    case True
    with Cons r r' show ?thesis by simp
  next
    case False
    with Cons.prems(1) r have tot: "0 < tot" by (simp add: demanded_total_positive_def)
    from False tot Cons.prems(2) r have a: "\<not> free < req"
      "\<not> alpha < 1 - (free - req) / tot" "canScheduleMulti_loop alpha rs = Some (True, [])"
      by (auto simp: Let_def split: if_splits)
    from util_mono[OF tot le a(2)] have "\<not> alpha < 1 - (free' - req) / tot" .
    moreover from a(1) le have "\<not> free' < req" by simp
    moreover from Cons.IH Cons.prems(1) a(3)
    have "canScheduleMulti_loop alpha rs' = Some (True, [])" by simp
    ultimately show ?thesis using False tot r' by (simp add: Let_def)
  qed
qed

lemma resources_raised:
  "free_raised n n' \<Longrightarrow> list_all2 row_raised (resources d n) (resources d n')"
  by (simp add: free_raised_def resources_def row_raised_def)

text \<open>
  C6. Admission is monotone in the free capacity: a node that admits a demand still
  admits it after any of its free fields is raised, the demand, the totals and the
  ceiling held fixed. This holds for the extender and the plugin on every node state.
  For the standalone predicate it holds on the node states in which every dimension with
  a demand has a positive total; on those the predicate always returns a result. (The
  utilization ceiling divides by the total: a negative total turns it around, and a
  zero total is a division by zero.)
\<close>

theorem admission_monotone_in_free:
  assumes "free_raised n n'"
  shows "(CanScheduleMulti d n alpha \<longrightarrow> CanScheduleMulti d n' alpha) \<and>
         (fst (plugin_canScheduleMulti d n) \<longrightarrow> fst (plugin_canScheduleMulti d n')) \<and>
         ((\<forall>r \<in> set (resources d n). demanded_total_positive r) \<longrightarrow>
            (\<exists>b l. canScheduleMulti d n alpha = Some (b, l)) \<and>
            (canScheduleMulti d n alpha = Some (True, []) \<longrightarrow>
               canScheduleMulti d n' alpha = Some (True, [])))"
proof (intro conjI impI)
  assume "CanScheduleMulti d n alpha"
  with assms show "CanScheduleMulti d n' alpha"
    by (auto simp: CanScheduleMulti_def free_raised_def split: if_splits)
next
  assume "fst (plugin_canScheduleMulti d n)"
  with assms show "fst (plugin_canScheduleMulti d n')"
    by (auto simp: plugin_canScheduleMulti_def free_raised_def split: if_splits)
next
  assume "\<forall>r \<in> set (resources d n). demanded_total_positive r"
  then have "\<forall>r \<in> set (resources d n). ceiling_defined r"
    by (blast intro: demanded_total_positive_ceiling_defined)
  from loop_defined[OF this]
  show "\<exists>b l. canScheduleMulti d n alpha = Some (b, l)"
    by (simp add: canScheduleMulti_def)
next
  assume p: "\<forall>r \<in> set (resources d n). demanded_total_positive r"
    and a: "canScheduleMulti d n alpha = Some (True, [])"
  from loop_mono[OF resources_raised[OF assms] p] a
  show "canScheduleMulti d n' alpha = Some (True, [])"
    by (simp add: canScheduleMulti_def)
qed

text \<open>
  The theorem at the end-to-end example, with the free cores raised from 3 to 4 and the
  ceiling 0.8: every total is positive, and all three predicates admit before and
  after.
\<close>

theorem admission_monotone_in_free_witness:
  "free_raised example_node (example_node\<lparr>CPUFree := 4\<rparr>) \<and>
   list_all demanded_total_positive (resources example_pod example_node) \<and>
   CanScheduleMulti example_pod example_node (4/5) \<and>
   CanScheduleMulti example_pod (example_node\<lparr>CPUFree := 4\<rparr>) (4/5) \<and>
   fst (plugin_canScheduleMulti example_pod example_node) \<and>
   fst (plugin_canScheduleMulti example_pod (example_node\<lparr>CPUFree := 4\<rparr>)) \<and>
   canScheduleMulti example_pod example_node (4/5) = Some (True, []) \<and>
   canScheduleMulti example_pod (example_node\<lparr>CPUFree := 4\<rparr>) (4/5) = Some (True, [])"
proof -
  have h: "free_raised example_node (example_node\<lparr>CPUFree := 4\<rparr>)"
    by (simp add: free_raised_def example_node_def)
  have t: "\<forall>r \<in> set (resources example_pod example_node). demanded_total_positive r"
    by (simp add: resources_def example_pod_def example_node_def
        demanded_total_positive_def)
  have a1: "CanScheduleMulti example_pod example_node (4/5)"
    by (simp add: CanScheduleMulti_def example_pod_def example_node_def)
  have a2: "fst (plugin_canScheduleMulti example_pod example_node)"
    by (simp add: plugin_canScheduleMulti_def example_pod_def example_node_def)
  have a3: "canScheduleMulti example_pod example_node (4/5) = Some (True, [])"
    by (simp add: canScheduleMulti_def resources_def example_pod_def example_node_def
        Let_def)
  from admission_monotone_in_free[OF h, of example_pod "4/5"] t a1 a2 a3 h
  show ?thesis unfolding list_all_iff by blast
qed

text \<open>
  With a negative total the standalone predicate is not monotone. On a node whose CPU
  total is \<open>- 4\<close>, a demand of 3 cores is admitted at the ceiling 1 while exactly 3 cores
  are free (the projected utilization is 1), and rejected once 4 cores are free (the
  projected utilization is 1.25).
\<close>

theorem negative_total_breaks_monotonicity:
  "free_raised (example_node\<lparr>CPUTotal := - 4\<rparr>) (example_node\<lparr>CPUTotal := - 4, CPUFree := 4\<rparr>) \<and>
   canScheduleMulti (example_pod\<lparr>CPU := 3\<rparr>) (example_node\<lparr>CPUTotal := - 4\<rparr>) 1 =
     Some (True, []) \<and>
   canScheduleMulti (example_pod\<lparr>CPU := 3\<rparr>)
     (example_node\<lparr>CPUTotal := - 4, CPUFree := 4\<rparr>) 1 =
     Some (False, [UtilizationTooHigh ''cpu'' (5/4) 1])"
  by (simp add: free_raised_def resources_def example_pod_def example_node_def
      canScheduleMulti_def Let_def)

text \<open>
  C9. The extender's \<open>CanScheduleMulti\<close> returns the same result for any two values of
  its parameter \<open>alpha\<close>: the utilization ceiling is never applied on this front end.
\<close>

theorem extender_admission_ignores_alpha:
  "CanScheduleMulti podReq stats alpha = CanScheduleMulti podReq stats alpha'"
  by (simp add: CanScheduleMulti_def)

theorem extender_admission_ignores_alpha_witness:
  "CanScheduleMulti example_pod example_node 0 = CanScheduleMulti example_pod example_node (4/5)"
  using extender_admission_ignores_alpha[of example_pod example_node 0 "4/5"] .

section \<open>Scoring: a request without demand\<close>

lemma dominantShare_zero:
  "zero_demand pod \<Longrightarrow> dominantShare_loop 0 (score_resources pod stats) = Some 0"
  by (simp add: zero_demand_def score_resources_def)

text \<open>
  C4. In the standalone scheduler, a request whose demand is zero in every dimension
  scores the midpoint \<open>maxScore / 2\<close> (Go's integer division) on every node state.
\<close>

theorem standalone_zero_demand_scores_midpoint:
  assumes "zero_demand pod"
  shows "scoreMultiResource pod stats maxScore = Some (maxScore sdiv 2)"
  using dominantShare_zero[OF assms] by (simp add: scoreMultiResource_def)

theorem standalone_zero_demand_scores_midpoint_witness:
  "zero_demand idle_pod \<and> scoreMultiResource idle_pod example_node 100 = Some 50"
proof -
  have z: "zero_demand idle_pod" by (simp add: zero_demand_def idle_pod_def)
  from standalone_zero_demand_scores_midpoint[OF z, of example_node 100] z
  show ?thesis by simp
qed

text \<open>
  The extender's scoring function has no midpoint rule: the same request scores 100 of
  100 there, not 50.
\<close>

theorem extender_zero_demand_not_midpoint:
  "zero_demand idle_pod \<and> ScoreMultiResource idle_pod example_node 100 = Some 100 \<and>
   ScoreMultiResource idle_pod example_node 100 \<noteq> Some (100 sdiv 2)"
  by (simp add: zero_demand_def idle_pod_def ScoreMultiResource_def score_resources_def
      int_of_float64_def)

text \<open>
  C5. In the extender, a request whose demand is zero in every dimension scores
  \<open>maxScore\<close> on every node state, for a \<open>maxScore\<close> that is not negative (a negative
  score is clamped to zero) and that \<open>float64\<close> represents exactly.
\<close>

theorem extender_zero_demand_scores_maximum:
  assumes "zero_demand podReq" and "0 \<le> maxScore" and "maxScore \<le> 2 ^ 53"
  shows "ScoreMultiResource podReq stats maxScore = Some maxScore"
  using dominantShare_zero[OF assms(1)] assms(2)
  by (simp add: ScoreMultiResource_def int_of_float64_def)

theorem extender_zero_demand_scores_maximum_witness:
  "zero_demand idle_pod \<and> (0::int) \<le> 100 \<and> (100::int) \<le> 2 ^ 53 \<and>
   ScoreMultiResource idle_pod example_node 100 = Some 100"
proof -
  have z: "zero_demand idle_pod" by (simp add: zero_demand_def idle_pod_def)
  have a: "(0::int) \<le> 100" and b: "(100::int) \<le> 2 ^ 53" by simp_all
  from extender_zero_demand_scores_maximum[OF z a b, of example_node] z
  show ?thesis by simp
qed

text \<open>
  The standalone scheduler gives the same request 50 of 100: its midpoint rule applies
  whenever the dominant share is zero.
\<close>

theorem standalone_zero_demand_not_maximum:
  "zero_demand idle_pod \<and> scoreMultiResource idle_pod example_node 100 = Some 50 \<and>
   scoreMultiResource idle_pod example_node 100 \<noteq> Some 100"
  by (simp add: zero_demand_def idle_pod_def scoreMultiResource_def score_resources_def)

section \<open>Score normalization\<close>

text \<open>
  C8. With \<open>maxScore = 100\<close>, normalization maps the scores 20, 60, 100 to 0, 50, 100
  and leaves the scores 50, 50, 50 as they are, whatever the names of the nodes.
\<close>

theorem normalization_examples:
  "NormalizeScore 100 [\<lparr>ScoreName = a, Score = 20\<rparr>, \<lparr>ScoreName = b, Score = 60\<rparr>,
                       \<lparr>ScoreName = c, Score = 100\<rparr>] =
     [\<lparr>ScoreName = a, Score = 0\<rparr>, \<lparr>ScoreName = b, Score = 50\<rparr>,
      \<lparr>ScoreName = c, Score = 100\<rparr>] \<and>
   NormalizeScore 100 [\<lparr>ScoreName = a, Score = 50\<rparr>, \<lparr>ScoreName = b, Score = 50\<rparr>,
                       \<lparr>ScoreName = c, Score = 50\<rparr>] =
     [\<lparr>ScoreName = a, Score = 50\<rparr>, \<lparr>ScoreName = b, Score = 50\<rparr>,
      \<lparr>ScoreName = c, Score = 50\<rparr>]"
  by (simp add: NormalizeScore_def int64_div_def word_sless_alt)

theorem normalization_examples_witness:
  "map Score (NormalizeScore 100 [\<lparr>ScoreName = ''node1'', Score = 20\<rparr>,
                                  \<lparr>ScoreName = ''node2'', Score = 60\<rparr>,
                                  \<lparr>ScoreName = ''node3'', Score = 100\<rparr>]) = [0, 50, 100] \<and>
   map Score (NormalizeScore 100 [\<lparr>ScoreName = ''node1'', Score = 50\<rparr>,
                                  \<lparr>ScoreName = ''node2'', Score = 50\<rparr>,
                                  \<lparr>ScoreName = ''node3'', Score = 50\<rparr>]) = [50, 50, 50]"
  using normalization_examples[of "''node1''" "''node2''" "''node3''"] by simp

section \<open>Requirement extraction in the plugin\<close>

text \<open>
  C10. The plugin's extractor gives every pod the priority 1: the result does not
  change with the priority that the pod declares.
\<close>

theorem plugin_priority_is_one:
  "Priority (plugin_extractPodRequirements ParseFloat pod) = 1 \<and>
   plugin_extractPodRequirements ParseFloat (pod\<lparr>SpecPriority := declared\<rparr>) =
     plugin_extractPodRequirements ParseFloat pod"
  by (simp add: plugin_extractPodRequirements_def parseResourceAnnotation_def
      split: prod.splits)

theorem plugin_priority_is_one_witness:
  "Priority (plugin_extractPodRequirements parse_decimal (lowPod1\<lparr>SpecPriority := Some 10\<rparr>))
     = 1"
  using plugin_priority_is_one[of parse_decimal "lowPod1\<lparr>SpecPriority := Some 10\<rparr>"]
  by simp

section \<open>Node statistics: a usage above the total\<close>

text \<open>
  C3. A free value that comes out negative is to be clamped to zero. The standalone
  \<open>getNodeStats\<close> does not do so: on a metrics source that reports 7 busy cores for the
  node \<open>node1\<close>, above the fixed total of 6, it stores the free CPU \<open>- 1\<close>. On the same
  metrics source the CPU section of the extender stores the total 6 and the free value
  0, and the plugin, which reads the sample as a usage ratio and caps it at 1, stores
  the free value 0 as well.
\<close>

theorem node_stats_negative_free:
  "CPUTotal (getNodeStats (steady_metrics 7) ''node1'') = 6 \<and>
   CPUFree (getNodeStats (steady_metrics 7) ''node1'') = - 1 \<and>
   GetNodeStats_CPU (steady_metrics 7) ''node1'' = (6, 0) \<and>
   map_option CPUFree (plugin_getNodeStats (Some (steady_plugin_metrics 7)) ''node1'') =
     Some 0"
  by (simp add: getNodeStats_def GetNodeStats_CPU_def plugin_getNodeStats_def
      steady_metrics_def steady_plugin_metrics_def lookupSample_def Let_def
      split: prod.splits)

section \<open>Preemption\<close>

lemma preempt_both:
  assumes "preemption_scenario client pod nodeName stats rp1 rp2"
  shows "attemptPreemptionMulti client pod nodeName stats = (True, [rp1, rp2])"
  using assms
  by (simp add: preemption_scenario_def half_cpu_workload_def attemptPreemptionMulti_def
      Let_def)

lemma preempt_none:
  assumes "no_lower_priority client pod nodeName"
  shows "attemptPreemptionMulti client pod nodeName stats = (False, [])"
proof (cases "getRunningPods client nodeName")
  case None
  then show ?thesis by (simp add: attemptPreemptionMulti_def)
next
  case (Some runningPods)
  with assms have "filter (\<lambda>rp. RunningPriority rp < Priority pod) runningPods = []"
    by (auto simp: no_lower_priority_def filter_empty_conv)
  with Some show ?thesis by (simp add: attemptPreemptionMulti_def)
qed

text \<open>
  C2. In the preemption scenario (0.5 CPU and 512 MiB free, exactly two running
  workloads of 0.5 CPU and 500 MiB at priority 1, a demand of 1 CPU and 1 GiB at
  priority 10, evictions accepted), \<open>attemptPreemptionMulti\<close> requests the eviction of
  both workloads and returns true. Whenever no running workload of the node has a
  priority below that of the demand, it returns false and requests no eviction.
\<close>

theorem preemption_evicts_both_or_nothing:
  "(preemption_scenario client pod nodeName stats rp1 rp2 \<longrightarrow>
      attemptPreemptionMulti client pod nodeName stats = (True, [rp1, rp2])) \<and>
   (no_lower_priority client pod nodeName \<longrightarrow>
      attemptPreemptionMulti client pod nodeName stats = (False, []))"
  using preempt_both preempt_none by blast

text \<open>
  The theorem at the pods, the demand and the node of \<open>TestAttemptPreemption\<close>, and at
  the same cluster with a demand of priority 1, which no running pod is below.
\<close>

theorem preemption_evicts_both_or_nothing_witness:
  "preemption_scenario test_client test_podReq ''node1'' test_stats
     (running_pod_of lowPod1) (running_pod_of lowPod2) \<and>
   attemptPreemptionMulti test_client test_podReq ''node1'' test_stats =
     (True, [running_pod_of lowPod1, running_pod_of lowPod2]) \<and>
   no_lower_priority test_client (test_podReq\<lparr>Priority := 1\<rparr>) ''node1'' \<and>
   attemptPreemptionMulti test_client (test_podReq\<lparr>Priority := 1\<rparr>) ''node1'' test_stats =
     (False, [])"
proof -
  have s: "preemption_scenario test_client test_podReq ''node1'' test_stats
     (running_pod_of lowPod1) (running_pod_of lowPod2)"
    by (simp add: preemption_scenario_def half_cpu_workload_def test_client_def
        test_podReq_def test_stats_def getRunningPods_def running_pod_of_def lowPod1_def
        lowPod2_def)
  have n: "no_lower_priority test_client (test_podReq\<lparr>Priority := 1\<rparr>) ''node1''"
    by (simp add: no_lower_priority_def test_client_def test_podReq_def getRunningPods_def
        running_pod_of_def lowPod1_def lowPod2_def)
  from preemption_evicts_both_or_nothing[of test_client test_podReq "''node1''"
      test_stats "running_pod_of lowPod1" "running_pod_of lowPod2"] s
  have a: "attemptPreemptionMulti test_client test_podReq ''node1'' test_stats =
     (True, [running_pod_of lowPod1, running_pod_of lowPod2])" by blast
  from preemption_evicts_both_or_nothing[of test_client
      "test_podReq\<lparr>Priority := 1\<rparr>" "''node1''" test_stats] n
  have b: "attemptPreemptionMulti test_client (test_podReq\<lparr>Priority := 1\<rparr>) ''node1''
     test_stats = (False, [])" by blast
  from s a n b show ?thesis by blast
qed

section \<open>Annotation parsing\<close>

lemma ToUpper_idem: "ToUpper (ToUpper c) = ToUpper c"
  by (simp add: ToUpper_def)

lemma parse_suffix:
  assumes "ParseFloat (numPart @ [c]) = None"
  shows "parseResourceAnnotation ParseFloat (with_annotation pod key (numPart @ [c])) key d =
         (if numPart = [] then d
          else case ParseFloat numPart of
                 None \<Rightarrow> d
               | Some parsedNum \<Rightarrow>
                   if ToUpper c = CHR ''K'' then parsedNum * 1024
                   else if ToUpper c = CHR ''M'' then parsedNum * 1024 * 1024
                   else if ToUpper c = CHR ''G'' then parsedNum * 1024 * 1024 * 1024
                   else d)"
  using assms
  by (cases numPart)
     (simp_all add: parseResourceAnnotation_def with_annotation_def Let_def
        split: option.splits)

text \<open>
  C7. Given what \<open>strconv.ParseFloat\<close> returns on the strings involved, an annotation
  \<open>50M\<close> is parsed to \<open>50 * 1024 * 1024\<close>, \<open>2G\<close> to \<open>2 * 1024 * 1024 * 1024\<close>, \<open>100\<close> to
  100 and \<open>garbage\<close> to the default value that was passed in. The unit suffix is
  case-insensitive: a value and the same value with its last letter in upper case are
  parsed to the same number whenever \<open>ParseFloat\<close> rejects both as a whole, and the
  upper-case forms of k, m, g are K, M, G.
\<close>

theorem annotation_units_parsed:
  assumes "agrees_on_examples ParseFloat"
  shows "parseResourceAnnotation ParseFloat (with_annotation pod key ''50M'') key d =
           50 * 1024 * 1024 \<and>
         parseResourceAnnotation ParseFloat (with_annotation pod key ''2G'') key d =
           2 * 1024 * 1024 * 1024 \<and>
         parseResourceAnnotation ParseFloat (with_annotation pod key ''100'') key d = 100 \<and>
         parseResourceAnnotation ParseFloat (with_annotation pod key ''garbage'') key d = d \<and>
         (ParseFloat (numPart @ [c]) = None \<and> ParseFloat (numPart @ [ToUpper c]) = None \<longrightarrow>
            parseResourceAnnotation ParseFloat (with_annotation pod key (numPart @ [c])) key d =
            parseResourceAnnotation ParseFloat
              (with_annotation pod key (numPart @ [ToUpper c])) key d) \<and>
         ToUpper CHR ''k'' = CHR ''K'' \<and> ToUpper CHR ''m'' = CHR ''M'' \<and>
         ToUpper CHR ''g'' = CHR ''G''"
proof (intro conjI impI)
  from assms have a: "ParseFloat (''50'' @ [CHR ''M'']) = None" "ParseFloat ''50'' = Some 50"
    "ParseFloat (''2'' @ [CHR ''G'']) = None" "ParseFloat ''2'' = Some 2"
    "ParseFloat ''100'' = Some 100" "ParseFloat (''garbag'' @ [CHR ''e'']) = None"
    "ParseFloat ''garbag'' = None"
    by (simp_all add: agrees_on_examples_def)
  from parse_suffix[of ParseFloat "''50''" "CHR ''M''" pod key d] a(1,2)
  show "parseResourceAnnotation ParseFloat (with_annotation pod key ''50M'') key d =
           50 * 1024 * 1024"
    by (simp add: ToUpper_def)
  from parse_suffix[of ParseFloat "''2''" "CHR ''G''" pod key d] a(3,4)
  show "parseResourceAnnotation ParseFloat (with_annotation pod key ''2G'') key d =
           2 * 1024 * 1024 * 1024"
    by (simp add: ToUpper_def)
  from a(5) show "parseResourceAnnotation ParseFloat (with_annotation pod key ''100'') key d = 100"
    by (simp add: parseResourceAnnotation_def with_annotation_def)
  from parse_suffix[of ParseFloat "''garbag''" "CHR ''e''" pod key d] a(6,7)
  show "parseResourceAnnotation ParseFloat (with_annotation pod key ''garbage'') key d = d"
    by simp
next
  assume "ParseFloat (numPart @ [c]) = None \<and> ParseFloat (numPart @ [ToUpper c]) = None"
  then have 1: "ParseFloat (numPart @ [c]) = None"
    and 2: "ParseFloat (numPart @ [ToUpper c]) = None" by simp_all
  show "parseResourceAnnotation ParseFloat (with_annotation pod key (numPart @ [c])) key d =
        parseResourceAnnotation ParseFloat
          (with_annotation pod key (numPart @ [ToUpper c])) key d"
    unfolding parse_suffix[of ParseFloat numPart c pod key d, OF 1]
      parse_suffix[of ParseFloat numPart "ToUpper c" pod key d, OF 2] ToUpper_idem ..
qed (simp_all add: ToUpper_def)

text \<open>
  The theorem with the digit parser for \<open>ParseFloat\<close>, the default 7, and the value
  \<open>50m\<close> for the suffix in lower case.
\<close>

theorem annotation_units_parsed_witness:
  "agrees_on_examples parse_decimal \<and>
   parseResourceAnnotation parse_decimal
     (with_annotation lowPod1 ''scheduler.extender/disk-read'' ''50M'')
     ''scheduler.extender/disk-read'' 7 = 52428800 \<and>
   parseResourceAnnotation parse_decimal
     (with_annotation lowPod1 ''scheduler.extender/disk-read'' ''2G'')
     ''scheduler.extender/disk-read'' 7 = 2147483648 \<and>
   parseResourceAnnotation parse_decimal
     (with_annotation lowPod1 ''scheduler.extender/disk-read'' ''100'')
     ''scheduler.extender/disk-read'' 7 = 100 \<and>
   parseResourceAnnotation parse_decimal
     (with_annotation lowPod1 ''scheduler.extender/disk-read'' ''garbage'')
     ''scheduler.extender/disk-read'' 7 = 7 \<and>
   parse_decimal ''50m'' = None \<and>
   parse_decimal (''50'' @ [ToUpper CHR ''m'']) = None \<and>
   parseResourceAnnotation parse_decimal
     (with_annotation lowPod1 ''scheduler.extender/disk-read'' ''50m'')
     ''scheduler.extender/disk-read'' 7 =
   parseResourceAnnotation parse_decimal
     (with_annotation lowPod1 ''scheduler.extender/disk-read'' ''50M'')
     ''scheduler.extender/disk-read'' 7"
proof -
  have h: "agrees_on_examples parse_decimal"
    by (simp add: agrees_on_examples_def parse_decimal_def digit_value_def)
  have m: "parse_decimal (''50'' @ [CHR ''m'']) = None"
    "parse_decimal (''50'' @ [ToUpper CHR ''m'']) = None"
    by (simp_all add: parse_decimal_def digit_value_def ToUpper_def)
  have u: "ToUpper CHR ''m'' = CHR ''M''" by (simp add: ToUpper_def)
  from annotation_units_parsed[OF h, of lowPod1 "''scheduler.extender/disk-read''" 7
      "''50''" "CHR ''m''"] h m
  show ?thesis by (simp add: u)
qed

end
